theory Spec2Isabelle
  imports Main
begin

section \<open>The robot controller of backend/server.py\<close>

text \<open>
  The server keeps one process-wide \<open>RobotState\<close> object, mutates it from the command
  endpoint \<open>send_robot_command\<close> and from the background task \<open>robot_simulation\<close>,
  pushes snapshots to the websocket clients through \<open>ConnectionManager.broadcast\<close> and
  inserts a \<open>CleaningLog\<close> document at the end of a session.

  The embedding passes the state explicitly. Everything a handler takes from outside
  (the clock, the random roll, the generated document id, whether the database accepts
  the insert, whether a websocket accepts a send) is a parameter. An exception is the
  \<open>Inl\<close> branch of the handler's outcome, returned together with the state as the
  assignments before the raise left it.
\<close>

subsection \<open>Data\<close>

text \<open>
  \<open>RobotState.status\<close> only ever holds one of the five string literals
  "idle", "mopping", "spraying", "uv_disinfecting", "paused", and
  \<open>RobotState.pause_reason\<close> one of "obstacle_detected", "user_request" or None.
  \<open>current_mode\<close> is whatever string (or null) the request carried. Timestamps are
  datetimes with microsecond resolution: integers counting microseconds. The attribute
  \<open>connected_clients\<close> is never read or written after construction and is left out.
\<close>

datatype status_t = Idle | Mopping | Spraying | UvDisinfecting | Paused

datatype pause_reason_t = ObstacleDetected | UserRequest

record RobotState =
  status :: status_t
  progress :: int
  is_cleaning :: bool
  obstacle_detected :: bool
  start_time :: "int option"
  current_mode :: "string option"
  pause_reason :: "pause_reason_t option"

definition init_state :: RobotState where
  "init_state = \<lparr>status = Idle, progress = 0, is_cleaning = False, obstacle_detected = False,
     start_time = None, current_mode = None, pause_reason = None\<rparr>"

text \<open>The pydantic model \<open>CleaningLog\<close>; \<open>mode\<close> is a required \<open>str\<close>.\<close>

record CleaningLog =
  log_id :: string
  log_start_time :: int
  log_end_time :: "int option"
  log_duration :: "int option"
  log_mode :: string
  log_status :: string
  log_progress :: int

record RobotCommand =
  command :: string
  mode :: "string option"

text \<open>
  The dictionaries handed to \<open>manager.broadcast\<close>. \<open>to_dict\<close> copies the seven fields
  (the start time rendered in ISO format), so the snapshot is the state value itself.
\<close>

datatype msg_type = Alert | Info | StatusUpdate | CleaningComplete

record message =
  mtype :: msg_type
  mtext :: "string option"
  msg_state :: RobotState
  msg_duration :: "int option"

text \<open>The dictionaries returned by the command endpoint.\<close>

record response =
  success :: bool
  resp_message :: string
  resp_state :: "RobotState option"

datatype exn = AttributeError | TypeError | ValidationError | StorageUnavailable

text \<open>What one handler call reads from outside the program.\<close>

record env =
  now :: int
  new_id :: string
  db_ok :: bool

text \<open>
  What one handler call leaves behind: the state, the documents inserted into
  \<open>db.cleaning_logs\<close>, the messages passed to \<open>manager.broadcast\<close> in order, and
  whether it returned (\<open>Inr\<close>) or raised (\<open>Inl\<close>).
\<close>

record 'r effect =
  state_after :: RobotState
  inserted :: "CleaningLog list"
  broadcasts :: "message list"
  outcome :: "exn + 'r"

subsection \<open>Helpers\<close>

text \<open>
  \<open>int((end_time - start_time).total_seconds())\<close>. \<open>total_seconds\<close> divides the
  difference in microseconds by \<open>10**6\<close> with Python's true division of integers, whose
  result is the double nearest to the exact quotient, ties going to the even mantissa;
  \<open>int\<close> then truncates the double towards zero. The next four definitions compute that
  on integers for a dividend \<open>a \<ge> 0\<close> and a divisor \<open>d > 0\<close>.
\<close>

text \<open>The number of binary digits of a positive integer (\<open>int.bit_length\<close>).\<close>

function bit_length :: "int \<Rightarrow> nat" where
  "bit_length n = (if n \<le> 0 then 0 else Suc (bit_length (n div 2)))"
  by pat_completeness auto
termination
  by (relation "measure nat") auto

declare bit_length.simps [simp del]

text \<open>The integer nearest to \<open>n / d\<close>, a tie going to the even one.\<close>

definition round_half_even :: "int \<Rightarrow> int \<Rightarrow> int" where
  "round_half_even n d =
     (let q = n div d; r = n mod d
      in if 2 * r < d then q
         else if d < 2 * r then q + 1
         else if even q then q else q + 1)"

text \<open>
  The binary exponent of the quotient: the \<open>e\<close> with \<open>2^e \<le> a / d < 2^(e+1)\<close>. The
  difference of the bit lengths is \<open>e\<close> or \<open>e + 1\<close>; the comparison decides.
\<close>

definition binary_exponent :: "int \<Rightarrow> int \<Rightarrow> int" where
  "binary_exponent a d =
     (let t = int (bit_length a) - int (bit_length d)
      in if (if 0 \<le> t then d * 2 ^ nat t \<le> a else d \<le> a * 2 ^ nat (- t)) then t else t - 1)"

text \<open>
  \<open>int(a / d)\<close>. A double has a mantissa of 53 bits, so the doubles around the quotient
  are the multiples of \<open>2^(e-52)\<close>: the quotient is rounded to the nearest multiple,
  and the multiple is truncated to an integer. Differences of datetimes stay below
  \<open>2^59\<close> microseconds, so the quotient never leaves the range of a double and the
  OverflowError of true division has no branch here.
\<close>

definition true_divide_int :: "int \<Rightarrow> int \<Rightarrow> int" where
  "true_divide_int a d =
     (if a = 0 then 0
      else let e = binary_exponent a d
           in if e \<le> 52 then round_half_even (a * 2 ^ nat (52 - e)) d div 2 ^ nat (52 - e)
              else round_half_even a (d * 2 ^ nat (e - 52)) * 2 ^ nat (e - 52))"

text \<open>A negative timedelta gives the negated float, and \<open>int\<close> truncates towards zero.\<close>

definition duration_seconds :: "int \<Rightarrow> int \<Rightarrow> int" where
  "duration_seconds end_time start =
     (if start \<le> end_time then true_divide_int (end_time - start) 1000000
      else - true_divide_int (start - end_time) 1000000)"

text \<open>\<open>command.mode.replace('_', ' ')\<close>\<close>

definition replace_underscores :: "string \<Rightarrow> string" where
  "replace_underscores m = map (\<lambda>c. if c = CHR ''_'' then CHR '' '' else c) m"

definition raised :: "RobotState \<Rightarrow> exn \<Rightarrow> 'r effect" where
  "raised s x = \<lparr>state_after = s, inserted = [], broadcasts = [], outcome = Inl x\<rparr>"

subsection \<open>One iteration of \<open>robot_simulation\<close>\<close>

text \<open>The \<open>if\<close>/\<open>elif\<close> chain on the progress thresholds (lines 124 to 131).\<close>

definition derive_status :: "int \<Rightarrow> status_t" where
  "derive_status p =
     (if p < 30 then Mopping
      else if p < 60 then Spraying
      else if p < 90 then UvDisinfecting
      else Mopping)"

text \<open>Lines 121 to 131: the progress step and the status derived from it.\<close>

definition advance :: "RobotState \<Rightarrow> RobotState" where
  "advance s =
     (let s1 = s\<lparr>progress := progress s + 2\<rparr>
      in s1\<lparr>status := derive_status (progress s1)\<rparr>)"

text \<open>Lines 136 to 138: the state during the three-second sleep.\<close>

definition obstacle_pause :: "RobotState \<Rightarrow> RobotState" where
  "obstacle_pause s =
     s\<lparr>obstacle_detected := True, status := Paused, pause_reason := Some ObstacleDetected\<rparr>"

text \<open>Lines 147 and 148: what the code assigns after the sleep.\<close>

definition obstacle_clear :: "RobotState \<Rightarrow> RobotState" where
  "obstacle_clear s = s\<lparr>obstacle_detected := False, pause_reason := None\<rparr>"

text \<open>Lines 161 to 163.\<close>

definition mark_complete :: "RobotState \<Rightarrow> RobotState" where
  "mark_complete s = s\<lparr>is_cleaning := False, status := Idle, progress := 100\<rparr>"

definition alert_msg :: "RobotState \<Rightarrow> message" where
  "alert_msg s = \<lparr>mtype = Alert, mtext = Some ''Obstacle detected! Robot paused for safety.'',
     msg_state = s, msg_duration = None\<rparr>"

definition info_msg :: "string \<Rightarrow> RobotState \<Rightarrow> message" where
  "info_msg txt s = \<lparr>mtype = Info, mtext = Some txt, msg_state = s, msg_duration = None\<rparr>"

definition status_update_msg :: "RobotState \<Rightarrow> message" where
  "status_update_msg s = \<lparr>mtype = StatusUpdate, mtext = None, msg_state = s, msg_duration = None\<rparr>"

definition complete_msg :: "RobotState \<Rightarrow> int \<Rightarrow> message" where
  "complete_msg s d = \<lparr>mtype = CleaningComplete,
     mtext = Some ''Cleaning cycle completed successfully!'', msg_state = s, msg_duration = Some d\<rparr>"

text \<open>
  The \<open>else\<close> branch (lines 160 to 183). The subtraction raises TypeError when
  \<open>start_time\<close> is None, the \<open>CleaningLog\<close> constructor rejects a None mode, and the
  insert raises when the database is unavailable; none of them is caught.
\<close>

definition complete_session :: "env \<Rightarrow> RobotState \<Rightarrow> unit effect" where
  "complete_session e s =
     (let s1 = mark_complete s
      in case start_time s1 of
           None \<Rightarrow> raised s1 TypeError
         | Some st \<Rightarrow>
             let duration = duration_seconds (now e) st
             in case current_mode s1 of
                  None \<Rightarrow> raised s1 ValidationError
                | Some m \<Rightarrow>
                    if db_ok e then
                      \<lparr>state_after = s1,
                       inserted = [\<lparr>log_id = new_id e, log_start_time = st,
                          log_end_time = Some (now e), log_duration = Some duration,
                          log_mode = m, log_status = ''completed'', log_progress = 100\<rparr>],
                       broadcasts = [complete_msg s1 duration],
                       outcome = Inr ()\<rparr>
                    else raised s1 StorageUnavailable)"

text \<open>
  The body of the \<open>while True\<close> loop (lines 118 to 183). \<open>roll\<close> is
  \<open>random.random() < 0.1\<close>.
\<close>

definition tick :: "bool \<Rightarrow> env \<Rightarrow> RobotState \<Rightarrow> unit effect" where
  "tick roll e s =
     (if is_cleaning s \<and> status s \<noteq> Paused then
        if progress s < 100 then
          let s2 = advance s
          in if roll \<and> \<not> obstacle_detected s2 then
               let s3 = obstacle_pause s2;
                   s4 = obstacle_clear s3
               in \<lparr>state_after = s4, inserted = [],
                   broadcasts = [alert_msg s3,
                                 info_msg ''Path clear. Resuming cleaning...'' s4,
                                 status_update_msg s4],
                   outcome = Inr ()\<rparr>
             else \<lparr>state_after = s2, inserted = [],
                   broadcasts = [status_update_msg s2], outcome = Inr ()\<rparr>
        else complete_session e s
      else \<lparr>state_after = s, inserted = [], broadcasts = [], outcome = Inr ()\<rparr>)"

text \<open>
  The loop itself never returns. \<open>robot_simulation\<close> below runs it over a finite list of
  per-iteration inputs; an iteration that raises ends the task, so the remaining inputs
  are not consumed. The result says whether the task is still alive.
\<close>

fun robot_simulation :: "(bool \<times> env) list \<Rightarrow> RobotState \<Rightarrow> RobotState \<times> bool" where
  "robot_simulation [] s = (s, True)"
| "robot_simulation ((roll, e) # rest) s =
     (case outcome (tick roll e s) of
        Inl x \<Rightarrow> (state_after (tick roll e s), False)
      | Inr u \<Rightarrow> robot_simulation rest (state_after (tick roll e s)))"

subsection \<open>The command endpoint\<close>

definition start_state :: "RobotCommand \<Rightarrow> env \<Rightarrow> RobotState \<Rightarrow> RobotState" where
  "start_state c e s =
     s\<lparr>is_cleaning := True, status := Mopping, progress := 0,
       start_time := Some (now e), current_mode := mode c\<rparr>"

definition reply :: "RobotState \<Rightarrow> message list \<Rightarrow> response \<Rightarrow> response option effect" where
  "reply s ms r = \<lparr>state_after = s, inserted = [], broadcasts = ms, outcome = Inr (Some r)\<rparr>"

definition refuse :: "RobotState \<Rightarrow> string \<Rightarrow> response option effect" where
  "refuse s txt = reply s [] \<lparr>success = False, resp_message = txt, resp_state = None\<rparr>"

definition accept :: "RobotState \<Rightarrow> string \<Rightarrow> string \<Rightarrow> response option effect" where
  "accept s info txt =
     reply s [info_msg info s] \<lparr>success = True, resp_message = txt, resp_state = Some s\<rparr>"

text \<open>
  The \<open>stop\<close> branch once \<open>is_cleaning\<close> holds (lines 237 to 263): two assignments,
  the duration, the log document, the insert, and only then the three resets and the
  broadcast.
\<close>

definition stop_session :: "env \<Rightarrow> RobotState \<Rightarrow> response option effect" where
  "stop_session e s =
     (let s1 = s\<lparr>is_cleaning := False, status := Idle\<rparr>
      in case start_time s1 of
           None \<Rightarrow> raised s1 TypeError
         | Some st \<Rightarrow>
             let duration = duration_seconds (now e) st
             in case current_mode s1 of
                  None \<Rightarrow> raised s1 ValidationError
                | Some m \<Rightarrow>
                    if db_ok e then
                      let s2 = s1\<lparr>progress := 0, start_time := None, current_mode := None\<rparr>
                      in (accept s2 ''Cleaning stopped by user'' ''Cleaning stopped'')
                           \<lparr>inserted := [\<lparr>log_id = new_id e, log_start_time = st,
                              log_end_time = Some (now e), log_duration = Some duration,
                              log_mode = m, log_status = ''interrupted'',
                              log_progress = progress s1\<rparr>]\<rparr>
                    else raised s1 StorageUnavailable)"

text \<open>
  \<open>send_robot_command\<close> (lines 216 to 295). A command string matching none of the four
  branches falls off the end of the function, which then returns None.
\<close>

definition send_robot_command :: "RobotCommand \<Rightarrow> env \<Rightarrow> RobotState \<Rightarrow> response option effect" where
  "send_robot_command c e s =
     (if command c = ''start'' then
        if \<not> is_cleaning s then
          let s1 = start_state c e s
          in case mode c of
               None \<Rightarrow> raised s1 AttributeError
             | Some m \<Rightarrow>
                 accept s1 (''Starting '' @ replace_underscores m @ '' cycle...'') ''Cleaning started''
        else refuse s ''Robot is already cleaning''
      else if command c = ''stop'' then
        if is_cleaning s then stop_session e s
        else refuse s ''Robot is not cleaning''
      else if command c = ''pause'' then
        if is_cleaning s \<and> status s \<noteq> Paused then
          accept (s\<lparr>status := Paused, pause_reason := Some UserRequest\<rparr>)
            ''Cleaning paused by user'' ''Cleaning paused''
        else refuse s ''Cannot pause robot''
      else if command c = ''resume'' then
        if is_cleaning s \<and> status s = Paused then
          accept (s\<lparr>status := Mopping, pause_reason := None\<rparr>)
            ''Cleaning resumed'' ''Cleaning resumed''
        else refuse s ''Cannot resume robot''
      else \<lparr>state_after = s, inserted = [], broadcasts = [], outcome = Inr None\<rparr>)"

subsection \<open>The process: commands and ticks in sequence\<close>

text \<open>
  The running server: the state object, the log collection, the messages broadcast so
  far, and whether the simulation task is still alive. A command that raises is answered
  with a server error and the process goes on; a simulation iteration that raises ends
  the task created at startup, and nothing restarts it.
\<close>

datatype event = Command RobotCommand env | Tick bool env

record system =
  robot :: RobotState
  cleaning_logs :: "CleaningLog list"
  published :: "message list"
  sim_alive :: bool

definition init_system :: system where
  "init_system = \<lparr>robot = init_state, cleaning_logs = [], published = [], sim_alive = True\<rparr>"

definition apply_effect :: "'r effect \<Rightarrow> system \<Rightarrow> system" where
  "apply_effect eff sys =
     sys\<lparr>robot := state_after eff,
         cleaning_logs := cleaning_logs sys @ inserted eff,
         published := published sys @ broadcasts eff\<rparr>"

fun step :: "event \<Rightarrow> system \<Rightarrow> system" where
  "step (Command c e) sys = apply_effect (send_robot_command c e (robot sys)) sys"
| "step (Tick roll e) sys =
     (if sim_alive sys then
        (apply_effect (tick roll e (robot sys)) sys)
          \<lparr>sim_alive := (case outcome (tick roll e (robot sys)) of Inl x \<Rightarrow> False | Inr u \<Rightarrow> True)\<rparr>
      else sys)"

fun run :: "event list \<Rightarrow> system \<Rightarrow> system" where
  "run [] sys = sys"
| "run (ev # evs) sys = run evs (step ev sys)"

subsection \<open>\<open>ConnectionManager\<close>\<close>

text \<open>
  \<open>active_connections\<close> is a list of websockets. \<open>disconnect\<close> removes the first
  occurrence when there is one. \<open>delivers c\<close> says whether \<open>send_text\<close> on \<open>c\<close> returns;
  the bare \<open>except\<close> catches whatever it raises otherwise.
\<close>

definition disconnect :: "'c \<Rightarrow> 'c list \<Rightarrow> 'c list" where
  "disconnect websocket active = (if websocket \<in> set active then remove1 websocket active else active)"

text \<open>
  The first loop of \<open>broadcast\<close>: the connections that were sent to, those that took
  the message, and the list \<open>disconnected\<close>.
\<close>

fun send_loop :: "('c \<Rightarrow> bool) \<Rightarrow> 'c list \<Rightarrow> 'c list \<times> 'c list \<times> 'c list" where
  "send_loop delivers [] = ([], [], [])"
| "send_loop delivers (c # cs) =
     (case send_loop delivers cs of
        (tried, got, disconnected) \<Rightarrow>
          if delivers c then (c # tried, c # got, disconnected)
          else (c # tried, got, c # disconnected))"

text \<open>The second loop: \<open>for conn in disconnected: self.disconnect(conn)\<close>.\<close>

fun drop_loop :: "'c list \<Rightarrow> 'c list \<Rightarrow> 'c list" where
  "drop_loop [] active = active"
| "drop_loop (conn # rest) active = drop_loop rest (disconnect conn active)"

record 'c delivery =
  attempted :: "'c list"
  received :: "'c list"
  remaining :: "'c list"
  failure :: "exn option"

definition broadcast :: "('c \<Rightarrow> bool) \<Rightarrow> 'c list \<Rightarrow> 'c delivery" where
  "broadcast delivers active =
     (case send_loop delivers active of
        (tried, got, disconnected) \<Rightarrow>
          \<lparr>attempted = tried, received = got,
           remaining = drop_loop disconnected active, failure = None\<rparr>)"

subsection \<open>Scenarios\<close>

text \<open>
  Concrete inputs used below: a clock reading with the database up or down, a request
  body, and the states the server is in after a start, after a user pause, after 21 and
  after 50 iterations without an obstacle, and during the sleep of an obstacle pause.
\<close>

definition env_at :: "int \<Rightarrow> env" where
  "env_at t = \<lparr>now = t, new_id = ''log'', db_ok = True\<rparr>"

definition env_db_down :: "int \<Rightarrow> env" where
  "env_db_down t = \<lparr>now = t, new_id = ''log'', db_ok = False\<rparr>"

definition cmd :: "string \<Rightarrow> RobotCommand" where
  "cmd k = \<lparr>command = k, mode = Some ''full_clean''\<rparr>"

definition fresh_state :: RobotState where
  "fresh_state = state_after (send_robot_command (cmd ''start'') (env_at 0) init_state)"

definition paused_state :: RobotState where
  "paused_state = state_after (send_robot_command (cmd ''pause'') (env_at 1000000) fresh_state)"

definition halfway_state :: RobotState where
  "halfway_state = fst (robot_simulation (replicate 21 (False, env_at 100000000)) fresh_state)"

definition finished_state :: RobotState where
  "finished_state = fst (robot_simulation (replicate 50 (False, env_at 250000000)) fresh_state)"

definition obstacle_state :: RobotState where
  "obstacle_state = obstacle_pause (advance fresh_state)"

text \<open>
  A second session started 3.5 seconds after the epoch of the clock, the state one
  iteration before progress reaches 100, and the state a start request with a null mode
  leaves behind.
\<close>

definition late_state :: RobotState where
  "late_state = state_after (send_robot_command (cmd ''start'') (env_at 3500000) init_state)"

definition late_halfway_state :: RobotState where
  "late_halfway_state = fst (robot_simulation (replicate 21 (False, env_at 100000000)) late_state)"

definition late_finished_state :: RobotState where
  "late_finished_state = fst (robot_simulation (replicate 50 (False, env_at 250000000)) late_state)"

definition almost_finished_state :: RobotState where
  "almost_finished_state = fst (robot_simulation (replicate 49 (False, env_at 245000000)) fresh_state)"

definition null_mode_state :: RobotState where
  "null_mode_state =
     state_after (send_robot_command \<lparr>command = ''start'', mode = None\<rparr> (env_at 0) init_state)"

definition finished_system :: system where
  "finished_system =
     \<lparr>robot = finished_state, cleaning_logs = [], published = [], sim_alive = True\<rparr>"

section \<open>Properties\<close>

subsection \<open>The duration in whole seconds\<close>

lemma bit_length_pos: "0 < n \<Longrightarrow> bit_length n = Suc (bit_length (n div 2))"
  by (subst bit_length.simps) simp

lemma bit_length_bounds:
  "0 < n \<Longrightarrow> 2 ^ (bit_length n - 1) \<le> n \<and> n < 2 ^ bit_length n"
proof (induction n rule: bit_length.induct)
  case (1 n)
  show ?case
  proof (cases "n = 1")
    case True
    then show ?thesis by (simp add: bit_length.simps)
  next
    case False
    with "1.prems" have h: "0 < n div 2" by simp
    have n: "\<not> n \<le> 0" using "1.prems" by simp
    from "1.IH"[OF n h] have lo: "2 ^ (bit_length (n div 2) - 1) \<le> n div 2"
      and hi: "n div 2 < 2 ^ bit_length (n div 2)" by simp_all
    have bl: "bit_length (n div 2) = Suc (bit_length (n div 2) - 1)"
      using bit_length_pos[OF h] by simp
    have "(2::int) ^ bit_length (n div 2) = 2 * 2 ^ (bit_length (n div 2) - 1)"
      by (subst bl) simp
    with lo have "(2::int) ^ bit_length (n div 2) \<le> n" by linarith
    moreover from hi have "n < 2 * 2 ^ bit_length (n div 2)" by linarith
    ultimately show ?thesis by (simp add: bit_length_pos[OF "1.prems"])
  qed
qed

lemma binary_exponent_less:
  assumes "0 < a" "0 < d" "a < 2 ^ k * d"
  shows "binary_exponent a d < int k"
proof (rule ccontr)
  assume neg: "\<not> binary_exponent a d < int k"
  define t where "t = int (bit_length a) - int (bit_length d)"
  show False
  proof (cases "if 0 \<le> t then d * 2 ^ nat t \<le> a else d \<le> a * 2 ^ nat (- t)")
    case True
    then have e: "binary_exponent a d = t"
      unfolding binary_exponent_def Let_def t_def by simp
    with neg have tk: "int k \<le> t" by simp
    then have "k \<le> nat t" by simp
    then have "(2::int) ^ k \<le> 2 ^ nat t" by (intro power_increasing) simp_all
    then have "d * 2 ^ k \<le> d * 2 ^ nat t" using assms(2) by (intro mult_left_mono) simp_all
    moreover from True tk have "d * 2 ^ nat t \<le> a" by (simp split: if_splits)
    ultimately show False using assms(3) by (simp add: mult.commute)
  next
    case False
    then have e: "binary_exponent a d = t - 1"
      unfolding binary_exponent_def Let_def t_def by simp
    with neg have tk: "int k + 1 \<le> t" by simp
    have ba: "2 ^ (bit_length a - 1) \<le> a" using bit_length_bounds[OF assms(1)] by simp
    have bd: "d < 2 ^ bit_length d" using bit_length_bounds[OF assms(2)] by simp
    from tk have "bit_length d + k \<le> bit_length a - 1" by (simp add: t_def)
    then have "(2::int) ^ (bit_length d + k) \<le> 2 ^ (bit_length a - 1)"
      by (intro power_increasing) simp_all
    then have f1: "(2::int) ^ bit_length d * 2 ^ k \<le> a" using ba by (simp add: power_add)
    have f2: "d * 2 ^ k < 2 ^ bit_length d * 2 ^ k"
      using bd by (intro mult_strict_right_mono) simp_all
    from f1 f2 have "d * 2 ^ k < a" by linarith
    then show False using assms(3) by (simp add: mult.commute)
  qed
qed

lemma round_half_even_cases:
  "0 < d \<Longrightarrow> round_half_even n d = n div d
     \<or> (round_half_even n d = n div d + 1 \<and> d \<le> 2 * (n mod d))"
  by (auto simp: round_half_even_def Let_def)

lemma round_scaled_div:
  assumes a: "0 \<le> a" and d: "0 < d" and P: "0 < P" and dP: "d < 2 * P"
  shows "round_half_even (a * P) d div P = a div d"
proof -
  define n where "n = a div d"
  define m0 where "m0 = (a * P) div d"
  define r0 where "r0 = (a * P) mod d"
  define m where "m = round_half_even (a * P) d"
  have N: "a * P = m0 * d + r0" and r0: "0 \<le> r0" "r0 < d"
    using d by (simp_all add: m0_def r0_def)
  have a_lo: "n * d \<le> a"
  proof -
    have "a = n * d + a mod d" by (simp add: n_def)
    moreover have "0 \<le> a mod d" using d by simp
    ultimately show ?thesis by linarith
  qed
  have a_hi: "a + 1 \<le> (n + 1) * d"
  proof -
    have "a = n * d + a mod d" by (simp add: n_def)
    moreover have "a mod d < d" using d by simp
    ultimately show ?thesis by (simp add: algebra_simps)
  qed
  have lo: "n * P \<le> m0"
  proof -
    have "n * d * P \<le> a * P" using a_lo P by (intro mult_right_mono) simp_all
    then have "(n * P) * d \<le> a * P" by (simp add: algebra_simps)
    then have "((n * P) * d) div d \<le> (a * P) div d" using d by (intro zdiv_mono1) simp_all
    then show ?thesis using d by (simp add: m0_def)
  qed
  have hiP: "a * P + P \<le> (n + 1) * d * P"
  proof -
    have "(a + 1) * P \<le> ((n + 1) * d) * P" using a_hi P by (intro mult_right_mono) simp_all
    then show ?thesis by (simp add: algebra_simps)
  qed
  have hi: "m < (n + 1) * P"
  proof -
    from round_half_even_cases[OF d, of "a * P"]
    consider "m = m0" | "m = m0 + 1" "d \<le> 2 * r0"
      by (auto simp: m_def m0_def r0_def)
    then show ?thesis
    proof cases
      case 1
      have "m0 * d < ((n + 1) * P) * d" using N r0 hiP P by (simp add: algebra_simps)
      then have "m0 < (n + 1) * P" using d by (simp only: mult_less_cancel_right_pos)
      then show ?thesis using 1 by simp
    next
      case 2
      have "(2 * (m0 + 1)) * d < (2 * ((n + 1) * P)) * d"
        using N 2(2) hiP dP by (simp add: algebra_simps)
      then have "2 * (m0 + 1) < 2 * ((n + 1) * P)" using d by (simp only: mult_less_cancel_right_pos)
      then show ?thesis using 2(1) by simp
    qed
  qed
  have lo': "n * P \<le> m"
    using lo round_half_even_cases[OF d, of "a * P"] by (auto simp: m_def m0_def)
  have "m div P = n"
  proof -
    have "m = P * n + (m - n * P)" by (simp add: algebra_simps)
    moreover have "0 \<le> m - n * P" using lo' by simp
    moreover have "m - n * P < P" using hi by (simp add: algebra_simps)
    ultimately show ?thesis using int_div_pos_eq by blast
  qed
  then show ?thesis by (simp add: m_def n_def)
qed

lemma true_divide_int_exact:
  assumes "0 \<le> a" "0 < d" "d < 1048576" "a < 17179869184 * d"
  shows "true_divide_int a d = a div d"
proof (cases "a = 0")
  case True
  then show ?thesis by (simp add: true_divide_int_def)
next
  case False
  with assms(1) have pos: "0 < a" by simp
  define e where "e = binary_exponent a d"
  have "a < 2 ^ 34 * d" using assms(4) by simp
  from binary_exponent_less[OF pos assms(2) this] have e: "e < 34" by (simp add: e_def)
  then have k: "19 \<le> nat (52 - e)" by simp
  have "(2::int) ^ 19 \<le> 2 ^ nat (52 - e)" using k by (intro power_increasing) simp_all
  then have dP: "d < 2 * 2 ^ nat (52 - e)" using assms(3) by simp
  have "true_divide_int a d = round_half_even (a * 2 ^ nat (52 - e)) d div 2 ^ nat (52 - e)"
    using False e by (simp add: true_divide_int_def e_def Let_def)
  also have "\<dots> = a div d"
    using assms(1,2) dP by (intro round_scaled_div) simp_all
  finally show ?thesis .
qed

text \<open>
  Below \<open>2^34\<close> seconds (17179869184000000 microseconds, about 544 years) the rounding
  to a double never reaches the next integer, and the duration is the difference in
  microseconds divided by a million, truncated towards zero.
\<close>

lemma duration_seconds_exact:
  assumes "\<bar>end_time - start\<bar> < 17179869184000000"
  shows "duration_seconds end_time start
           = sgn (end_time - start) * (\<bar>end_time - start\<bar> div 1000000)"
proof (cases "start \<le> end_time")
  case True
  then have "true_divide_int (end_time - start) 1000000 = (end_time - start) div 1000000"
    using assms by (intro true_divide_int_exact) simp_all
  then show ?thesis using True by (cases "end_time = start") (simp_all add: duration_seconds_def)
next
  case False
  then have "true_divide_int (start - end_time) 1000000 = (start - end_time) div 1000000"
    using assms by (intro true_divide_int_exact) simp_all
  then show ?thesis using False by (simp add: duration_seconds_def)
qed

text \<open>From \<open>2^34\<close> seconds on the double can be the next integer.\<close>

lemma duration_seconds_rounds_up: "duration_seconds 19999999999999999 0 = 20000000000"
  by code_simp

subsection \<open>Auxiliary facts about the simulation loop\<close>

lemmas scenario_defs = cmd_def env_at_def env_db_down_def init_system_def init_state_def
  finished_system_def

lemmas handler_defs = send_robot_command_def start_state_def stop_session_def accept_def
  refuse_def reply_def raised_def info_msg_def apply_effect_def Let_def

lemmas tick_defs = tick_def advance_def obstacle_pause_def obstacle_clear_def derive_status_def
  alert_msg_def status_update_msg_def complete_session_def mark_complete_def complete_msg_def

lemma fresh_state_eq:
  "fresh_state = \<lparr>status = Mopping, progress = 0, is_cleaning = True, obstacle_detected = False,
     start_time = Some 0, current_mode = Some ''full_clean'', pause_reason = None\<rparr>"
  by (simp add: fresh_state_def cmd_def env_at_def init_state_def send_robot_command_def
      start_state_def accept_def reply_def Let_def)

lemma paused_state_eq:
  "paused_state = \<lparr>status = Paused, progress = 0, is_cleaning = True, obstacle_detected = False,
     start_time = Some 0, current_mode = Some ''full_clean'', pause_reason = Some UserRequest\<rparr>"
  by (simp add: paused_state_def fresh_state_eq cmd_def send_robot_command_def accept_def reply_def)

lemma derive_status_not_paused: "derive_status p \<noteq> Paused"
  by (simp add: derive_status_def)

lemma advance_eq:
  "advance s = s\<lparr>progress := progress s + 2, status := derive_status (progress s + 2)\<rparr>"
  by (simp add: advance_def Let_def)

lemma obstacle_state_eq:
  "obstacle_state = \<lparr>status = Paused, progress = 2, is_cleaning = True, obstacle_detected = True,
     start_time = Some 0, current_mode = Some ''full_clean'',
     pause_reason = Some ObstacleDetected\<rparr>"
  by (simp add: obstacle_state_def obstacle_pause_def advance_eq fresh_state_eq)

lemma tick_quiet:
  "is_cleaning s \<Longrightarrow> status s \<noteq> Paused \<Longrightarrow> progress s < 100 \<Longrightarrow>
   tick False e s = \<lparr>state_after = advance s, inserted = [],
     broadcasts = [status_update_msg (advance s)], outcome = Inr ()\<rparr>"
  by (simp add: tick_def Let_def)

lemma tick_inactive:
  "\<not> (is_cleaning s \<and> status s \<noteq> Paused) \<Longrightarrow>
   tick roll e s = \<lparr>state_after = s, inserted = [], broadcasts = [], outcome = Inr ()\<rparr>"
  by (auto simp: tick_def)

lemma tick_finished:
  "is_cleaning s \<Longrightarrow> status s \<noteq> Paused \<Longrightarrow> 100 \<le> progress s \<Longrightarrow>
   tick roll e s = complete_session e s"
  by (simp add: tick_def)

lemma complete_session_state: "state_after (complete_session e s) = mark_complete s"
  by (simp add: complete_session_def Let_def raised_def split: option.split)

lemma simulation_inactive: "\<not> is_cleaning s \<Longrightarrow> robot_simulation inputs s = (s, True)"
proof (induction inputs)
  case Nil
  then show ?case by simp
next
  case (Cons x xs)
  obtain r e where x: "x = (r, e)" by (cases x)
  from Cons show ?case by (simp add: x tick_inactive)
qed

text \<open>While the session has room left, each quiet iteration adds 2 and re-derives the status.\<close>

lemma simulation_active:
  "is_cleaning s \<Longrightarrow> status s \<noteq> Paused \<Longrightarrow> \<forall>x\<in>set inputs. \<not> fst x \<Longrightarrow>
   progress s + 2 * int (length inputs) \<le> 100 \<Longrightarrow>
   robot_simulation inputs s =
     (if inputs = [] then s
      else s\<lparr>progress := progress s + 2 * int (length inputs),
             status := derive_status (progress s + 2 * int (length inputs))\<rparr>, True)"
proof (induction inputs arbitrary: s)
  case Nil
  then show ?case by simp
next
  case (Cons x xs)
  obtain r e where x: "x = (r, e)" by (cases x)
  from Cons.prems have r: "\<not> r" and lt: "progress s < 100" by (auto simp: x)
  have t: "tick r e s = \<lparr>state_after = advance s, inserted = [],
     broadcasts = [status_update_msg (advance s)], outcome = Inr ()\<rparr>"
    using Cons.prems r lt by (simp add: tick_quiet)
  have a: "is_cleaning (advance s)" "status (advance s) \<noteq> Paused"
       "progress (advance s) + 2 * int (length xs) \<le> 100"
    using Cons.prems by (simp_all add: advance_eq derive_status_not_paused)
  have q: "\<forall>x\<in>set xs. \<not> fst x" using Cons.prems by simp
  show ?case
    by (simp add: x t Cons.IH[OF a(1) a(2) q a(3)]) (simp add: advance_eq algebra_simps)
qed

lemma simulation_append:
  "robot_simulation (xs @ ys) s =
     (if snd (robot_simulation xs s) then robot_simulation ys (fst (robot_simulation xs s))
      else robot_simulation xs s)"
proof (induction xs arbitrary: s)
  case Nil
  then show ?case by simp
next
  case (Cons x xs)
  obtain r e where x: "x = (r, e)" by (cases x)
  show ?case by (simp add: x Cons.IH split: sum.split)
qed

lemma simulation_after_completion:
  assumes "is_cleaning s" "status s \<noteq> Paused" "100 \<le> progress s"
  shows "fst (robot_simulation (x # rest) s) = mark_complete s"
proof -
  obtain r e where x: "x = (r, e)" by (cases x)
  have "\<not> is_cleaning (mark_complete s)" by (simp add: mark_complete_def)
  then show ?thesis using assms
    by (simp add: x tick_finished complete_session_state simulation_inactive split: sum.split)
qed

text \<open>
  From a cleaning, unpaused state with progress 0: up to 50 quiet iterations advance the
  session, the 51st takes the completion branch, and whatever follows changes nothing
  (the state is idle, or the task has ended on a raise).
\<close>

lemma quiet_simulation:
  assumes "is_cleaning s" "status s \<noteq> Paused" "progress s = 0" "\<forall>x\<in>set inputs. \<not> fst x"
  shows "fst (robot_simulation inputs s) =
     (if inputs = [] then s
      else if length inputs \<le> 50 then
        s\<lparr>progress := 2 * int (length inputs), status := derive_status (2 * int (length inputs))\<rparr>
      else s\<lparr>is_cleaning := False, status := Idle, progress := 100\<rparr>)"
proof (cases "length inputs \<le> 50")
  case True
  then show ?thesis using assms simulation_active[of s inputs] by simp
next
  case False
  define xs where "xs = take 50 inputs"
  define ys where "ys = drop 50 inputs"
  have split: "inputs = xs @ ys" and lx: "length xs = 50" and ny: "ys \<noteq> []"
    using False by (simp_all add: xs_def ys_def)
  have qx: "\<forall>x\<in>set xs. \<not> fst x" using assms(4) split by simp
  have run50: "robot_simulation xs s = (s\<lparr>progress := 100, status := Mopping\<rparr>, True)"
    using simulation_active[of s xs] assms qx lx by (auto simp: derive_status_def)
  obtain y rest where ys: "ys = y # rest" using ny by (cases ys) auto
  have "fst (robot_simulation inputs s)
          = fst (robot_simulation (y # rest) (s\<lparr>progress := 100, status := Mopping\<rparr>))"
    by (simp add: split simulation_append run50 ys del: robot_simulation.simps)
  also have "\<dots> = mark_complete (s\<lparr>progress := 100, status := Mopping\<rparr>)"
    using assms by (intro simulation_after_completion) simp_all
  finally show ?thesis using False by (auto simp: mark_complete_def)
qed

lemma halfway_state_eq:
  "halfway_state = \<lparr>status = Spraying, progress = 42, is_cleaning = True,
     obstacle_detected = False, start_time = Some 0, current_mode = Some ''full_clean'',
     pause_reason = None\<rparr>"
  unfolding halfway_state_def
  by (subst quiet_simulation) (simp_all add: fresh_state_eq derive_status_def)

lemma finished_state_eq:
  "finished_state = \<lparr>status = Mopping, progress = 100, is_cleaning = True,
     obstacle_detected = False, start_time = Some 0, current_mode = Some ''full_clean'',
     pause_reason = None\<rparr>"
  unfolding finished_state_def
  by (subst quiet_simulation) (simp_all add: fresh_state_eq derive_status_def)

lemma late_state_eq:
  "late_state = \<lparr>status = Mopping, progress = 0, is_cleaning = True, obstacle_detected = False,
     start_time = Some 3500000, current_mode = Some ''full_clean'', pause_reason = None\<rparr>"
  by (simp add: late_state_def cmd_def env_at_def init_state_def send_robot_command_def
      start_state_def accept_def reply_def Let_def)

lemma late_halfway_state_eq:
  "late_halfway_state = \<lparr>status = Spraying, progress = 42, is_cleaning = True,
     obstacle_detected = False, start_time = Some 3500000,
     current_mode = Some ''full_clean'', pause_reason = None\<rparr>"
  unfolding late_halfway_state_def
  by (subst quiet_simulation) (simp_all add: late_state_eq derive_status_def)

lemma late_finished_state_eq:
  "late_finished_state = \<lparr>status = Mopping, progress = 100, is_cleaning = True,
     obstacle_detected = False, start_time = Some 3500000,
     current_mode = Some ''full_clean'', pause_reason = None\<rparr>"
  unfolding late_finished_state_def
  by (subst quiet_simulation) (simp_all add: late_state_eq derive_status_def)

lemma almost_finished_state_eq:
  "almost_finished_state = \<lparr>status = Mopping, progress = 98, is_cleaning = True,
     obstacle_detected = False, start_time = Some 0, current_mode = Some ''full_clean'',
     pause_reason = None\<rparr>"
  unfolding almost_finished_state_def
  by (subst quiet_simulation) (simp_all add: fresh_state_eq derive_status_def)

lemma null_mode_state_eq:
  "null_mode_state = \<lparr>status = Mopping, progress = 0, is_cleaning = True,
     obstacle_detected = False, start_time = Some 0, current_mode = None,
     pause_reason = None\<rparr>"
  by (simp add: null_mode_state_def env_at_def init_state_def send_robot_command_def
      start_state_def raised_def Let_def)

subsection \<open>Auxiliary facts about \<open>broadcast\<close>\<close>

lemma send_loop_eq: "send_loop d cs = (cs, filter d cs, filter (\<lambda>c. \<not> d c) cs)"
  by (induction cs) auto

text \<open>
  Removing the failed connections one by one, each time the first occurrence, leaves the
  connections that took the message, in their order; \<open>pre\<close> is the part of the list
  already known to be kept.
\<close>

lemma drop_loop_filter:
  "\<forall>x\<in>set pre. d x \<Longrightarrow> drop_loop (filter (\<lambda>c. \<not> d c) ys) (pre @ ys) = pre @ filter d ys"
proof (induction ys arbitrary: pre)
  case Nil
  then show ?case by simp
next
  case (Cons y ys)
  show ?case
  proof (cases "d y")
    case True
    with Cons.prems have "\<forall>x\<in>set (pre @ [y]). d x" by simp
    from Cons.IH[OF this] True show ?thesis by simp
  next
    case False
    with Cons.prems have "y \<notin> set pre" by auto
    then have "disconnect y (pre @ y # ys) = pre @ ys"
      by (simp add: disconnect_def remove1_append)
    with False Cons.IH[OF Cons.prems] show ?thesis by simp
  qed
qed

subsection \<open>The pause invariant\<close>

text \<open>
  C1. The claim is that after every sequence of commands and ticks \<open>pause_reason\<close> is
  set exactly when \<open>status\<close> is "paused". The code does not keep this. After a start
  and one iteration whose obstacle roll fires, the lines after the sleep clear
  \<open>pause_reason\<close> and \<open>obstacle_detected\<close> but leave \<open>status\<close> at "paused", although
  the comment there says "Auto-resume" and the message says "Resuming cleaning". After a
  start, a user pause and a stop, \<open>status\<close> is "idle" and \<open>pause_reason\<close> is still
  "user_request", because the stop branch does not reset it.
\<close>

theorem obstacle_tick_breaks_pause_invariant:
  "status (robot (run [Command (cmd ''start'') (env_at 0), Tick True (env_at 5000000)]
       init_system)) = Paused
   \<and> pause_reason (robot (run [Command (cmd ''start'') (env_at 0), Tick True (env_at 5000000)]
       init_system)) = None
   \<and> status (robot (run [Command (cmd ''start'') (env_at 0),
        Command (cmd ''pause'') (env_at 1000000),
        Command (cmd ''stop'') (env_at 2000000)] init_system)) = Idle
   \<and> pause_reason (robot (run [Command (cmd ''start'') (env_at 0),
        Command (cmd ''pause'') (env_at 1000000),
        Command (cmd ''stop'') (env_at 2000000)] init_system)) = Some UserRequest"
  by (simp add: scenario_defs handler_defs tick_defs)

subsection \<open>Mode and start time against \<open>is_cleaning\<close>\<close>

text \<open>
  C2. The claim is that \<open>current_mode\<close> and \<open>start_time\<close> are set exactly while
  \<open>is_cleaning\<close> holds, after every operation. The stop branch resets both; the
  completion branch of the simulation loop sets \<open>is_cleaning\<close> to False and resets
  neither. After a start and 51 iterations without an obstacle the session is over and
  both are still set.
\<close>

theorem completion_keeps_start_time_and_mode:
  "\<not> is_cleaning (fst (robot_simulation (replicate 51 (False, env_at 255000000)) fresh_state))
   \<and> start_time (fst (robot_simulation (replicate 51 (False, env_at 255000000)) fresh_state))
       = Some 0
   \<and> current_mode (fst (robot_simulation (replicate 51 (False, env_at 255000000)) fresh_state))
       = Some ''full_clean''"
  by (subst quiet_simulation, simp_all add: fresh_state_eq)+

subsection \<open>Completion of a session\<close>

text \<open>
  C3, as stated, fails: the iteration in which progress goes from 98 to 100 takes the
  branch for \<open>progress < 100\<close>. Here, with no obstacle roll, it broadcasts a status
  update and nothing else, inserts no log document, and leaves the robot cleaning with
  status "mopping".
\<close>

theorem reaching_100_does_not_complete:
  "progress (fst (robot_simulation (replicate 49 (False, env_at 0)) fresh_state)) = 98
   \<and> tick False (env_at 250000000)
        (fst (robot_simulation (replicate 49 (False, env_at 0)) fresh_state))
     = \<lparr>state_after = finished_state, inserted = [],
        broadcasts = [\<lparr>mtype = StatusUpdate, mtext = None, msg_state = finished_state,
                        msg_duration = None\<rparr>],
        outcome = Inr ()\<rparr>
   \<and> progress finished_state = 100 \<and> is_cleaning finished_state
   \<and> status finished_state = Mopping"
  by (subst quiet_simulation, simp_all add: fresh_state_eq finished_state_eq tick_defs Let_def)+

text \<open>
  C3, amended. While cleaning and not paused, an iteration that begins with progress
  below 100 (the one in which progress reaches 100 among them) does not finalize the
  session: the robot is still cleaning afterwards, no log document is inserted, and the
  messages broadcast are a status update, preceded by an alert and an info message when
  the obstacle roll fires. An iteration that begins with progress at 100 or more (with
  the start time and mode of the session set and the database accepting the insert)
  finalizes it: exactly one log document is inserted, with status "completed", progress
  100 and as duration the time from the start to now in whole seconds, truncated
  towards zero (for times below \<open>2^34\<close> seconds); \<open>is_cleaning\<close> becomes False,
  \<open>status\<close> "idle" and \<open>progress\<close> 100; and one "cleaning_complete" message is
  broadcast, carrying the state after the iteration and that duration.
\<close>

theorem completion_tick:
  assumes "is_cleaning s" "status s \<noteq> Paused"
  shows "(progress s < 100 \<longrightarrow>
            is_cleaning (state_after (tick roll e s))
            \<and> inserted (tick roll e s) = []
            \<and> map mtype (broadcasts (tick roll e s))
                = (if roll \<and> \<not> obstacle_detected s then [Alert, Info, StatusUpdate]
                   else [StatusUpdate]))
     \<and> (100 \<le> progress s \<and> start_time s = Some st \<and> current_mode s = Some m \<and> db_ok e
          \<and> \<bar>now e - st\<bar> < 17179869184000000 \<longrightarrow>
            is_cleaning (state_after (tick roll e s)) = False
            \<and> status (state_after (tick roll e s)) = Idle
            \<and> progress (state_after (tick roll e s)) = 100
            \<and> inserted (tick roll e s)
                = [\<lparr>log_id = new_id e, log_start_time = st, log_end_time = Some (now e),
                    log_duration = Some (sgn (now e - st) * (\<bar>now e - st\<bar> div 1000000)),
                    log_mode = m, log_status = ''completed'', log_progress = 100\<rparr>]
            \<and> broadcasts (tick roll e s)
                = [\<lparr>mtype = CleaningComplete,
                    mtext = Some ''Cleaning cycle completed successfully!'',
                    msg_state = state_after (tick roll e s),
                    msg_duration = Some (sgn (now e - st) * (\<bar>now e - st\<bar> div 1000000))\<rparr>]
            \<and> outcome (tick roll e s) = Inr ())"
proof (intro conjI impI)
  assume "progress s < 100"
  with assms show "is_cleaning (state_after (tick roll e s))"
    by (simp add: tick_def Let_def advance_def obstacle_pause_def obstacle_clear_def)
  from assms \<open>progress s < 100\<close> show "inserted (tick roll e s) = []"
    by (simp add: tick_def Let_def)
  from assms \<open>progress s < 100\<close>
  show "map mtype (broadcasts (tick roll e s))
          = (if roll \<and> \<not> obstacle_detected s then [Alert, Info, StatusUpdate]
             else [StatusUpdate])"
    by (simp add: tick_def Let_def advance_def alert_msg_def info_msg_def status_update_msg_def)
next
  assume h: "100 \<le> progress s \<and> start_time s = Some st \<and> current_mode s = Some m \<and> db_ok e
     \<and> \<bar>now e - st\<bar> < 17179869184000000"
  then have d: "duration_seconds (now e) st
                  = sgn (now e - st) * (\<bar>now e - st\<bar> div 1000000)"
    by (intro duration_seconds_exact) simp
  have t: "tick roll e s =
     \<lparr>state_after = mark_complete s,
      inserted = [\<lparr>log_id = new_id e, log_start_time = st, log_end_time = Some (now e),
         log_duration = Some (duration_seconds (now e) st), log_mode = m,
         log_status = ''completed'', log_progress = 100\<rparr>],
      broadcasts = [complete_msg (mark_complete s) (duration_seconds (now e) st)],
      outcome = Inr ()\<rparr>"
    using assms h by (simp add: tick_def complete_session_def mark_complete_def Let_def)
  show "is_cleaning (state_after (tick roll e s)) = False"
    and "status (state_after (tick roll e s)) = Idle"
    and "progress (state_after (tick roll e s)) = 100"
    by (simp_all add: t mark_complete_def)
  show "inserted (tick roll e s)
          = [\<lparr>log_id = new_id e, log_start_time = st, log_end_time = Some (now e),
              log_duration = Some (sgn (now e - st) * (\<bar>now e - st\<bar> div 1000000)),
              log_mode = m, log_status = ''completed'', log_progress = 100\<rparr>]"
    by (simp add: t d)
  show "broadcasts (tick roll e s)
          = [\<lparr>mtype = CleaningComplete,
              mtext = Some ''Cleaning cycle completed successfully!'',
              msg_state = state_after (tick roll e s),
              msg_duration = Some (sgn (now e - st) * (\<bar>now e - st\<bar> div 1000000))\<rparr>]"
    by (simp add: t d complete_msg_def)
  show "outcome (tick roll e s) = Inr ()"
    by (simp add: t)
qed

theorem completion_tick_witness:
  "is_cleaning almost_finished_state \<and> status almost_finished_state \<noteq> Paused
   \<and> progress almost_finished_state < 100
   \<and> is_cleaning (state_after (tick True (env_at 250000000) almost_finished_state))
   \<and> inserted (tick True (env_at 250000000) almost_finished_state) = []
   \<and> map mtype (broadcasts (tick True (env_at 250000000) almost_finished_state))
       = [Alert, Info, StatusUpdate]
   \<and> is_cleaning late_finished_state \<and> status late_finished_state \<noteq> Paused
   \<and> 100 \<le> progress late_finished_state
   \<and> start_time late_finished_state = Some 3500000
   \<and> current_mode late_finished_state = Some ''full_clean''
   \<and> db_ok (env_at 258900000)
   \<and> \<bar>now (env_at 258900000) - 3500000\<bar> < 17179869184000000
   \<and> inserted (tick False (env_at 258900000) late_finished_state) =
       [\<lparr>log_id = ''log'', log_start_time = 3500000, log_end_time = Some 258900000,
         log_duration = Some 255, log_mode = ''full_clean'',
         log_status = ''completed'', log_progress = 100\<rparr>]
   \<and> map msg_duration (broadcasts (tick False (env_at 258900000) late_finished_state))
       = [Some 255]
   \<and> status (state_after (tick False (env_at 258900000) late_finished_state)) = Idle
   \<and> progress (state_after (tick False (env_at 258900000) late_finished_state)) = 100
   \<and> \<not> is_cleaning (state_after (tick False (env_at 258900000) late_finished_state))"
  using completion_tick [of almost_finished_state True "env_at 250000000"]
        completion_tick [of late_finished_state False "env_at 258900000" 3500000
          "''full_clean''"]
  by (simp add: almost_finished_state_eq late_finished_state_eq env_at_def)

subsection \<open>Progress and status over quiet ticks\<close>

text \<open>
  C4, as stated, fails at N = 51: the 51st iteration after a start completes the
  session, so progress is 100 and the status is "idle", where the threshold table gives
  "mopping" for a progress of 90 or more.
\<close>

theorem idle_after_51_quiet_ticks:
  "progress (fst (robot_simulation (replicate 51 (False, env_at 255000000)) fresh_state)) = 100
   \<and> status (fst (robot_simulation (replicate 51 (False, env_at 255000000)) fresh_state)) = Idle
   \<and> status (fst (robot_simulation (replicate 51 (False, env_at 255000000)) fresh_state))
       \<noteq> derive_status
            (progress (fst (robot_simulation (replicate 51 (False, env_at 255000000)) fresh_state)))"
  by (subst quiet_simulation, simp_all add: fresh_state_eq derive_status_def)+

text \<open>
  C4, amended. After a start accepted in a state that was not cleaning, N iterations
  whose obstacle roll never fires leave progress at min(100, 2N). For N up to 50 the
  status is the one the threshold table gives for that progress (below 30 mopping, below
  60 spraying, below 90 UV disinfecting, from 90 on mopping); from N = 51 on the session
  has completed and the status is "idle".
\<close>

theorem quiet_ticks_progress_and_status:
  assumes "command c = ''start''" "\<not> is_cleaning s0" "\<forall>x\<in>set inputs. \<not> fst x"
  shows "progress (fst (robot_simulation inputs (state_after (send_robot_command c e s0))))
           = min 100 (2 * int (length inputs))
     \<and> status (fst (robot_simulation inputs (state_after (send_robot_command c e s0))))
           = (if length inputs \<le> 50 then
                if 2 * int (length inputs) < 30 then Mopping
                else if 2 * int (length inputs) < 60 then Spraying
                else if 2 * int (length inputs) < 90 then UvDisinfecting
                else Mopping
              else Idle)"
proof -
  have s: "state_after (send_robot_command c e s0) = start_state c e s0"
    using assms(1,2)
    by (simp add: send_robot_command_def accept_def reply_def raised_def Let_def
        split: option.split)
  have p: "is_cleaning (start_state c e s0)" "status (start_state c e s0) \<noteq> Paused"
    "progress (start_state c e s0) = 0" "status (start_state c e s0) = Mopping"
    by (simp_all add: start_state_def)
  show ?thesis
    unfolding s quiet_simulation[OF p(1) p(2) p(3) assms(3)]
    using p(3,4) by (auto simp: derive_status_def)
qed

theorem quiet_ticks_progress_and_status_witness:
  "command (cmd ''start'') = ''start'' \<and> \<not> is_cleaning init_state
   \<and> progress (fst (robot_simulation (replicate 15 (False, env_at 0)) fresh_state)) = 30
   \<and> status (fst (robot_simulation (replicate 15 (False, env_at 0)) fresh_state)) = Spraying
   \<and> progress (fst (robot_simulation (replicate 29 (False, env_at 0)) fresh_state)) = 58
   \<and> status (fst (robot_simulation (replicate 29 (False, env_at 0)) fresh_state)) = Spraying
   \<and> progress (fst (robot_simulation (replicate 30 (False, env_at 0)) fresh_state)) = 60
   \<and> status (fst (robot_simulation (replicate 30 (False, env_at 0)) fresh_state))
       = UvDisinfecting"
  using quiet_ticks_progress_and_status
          [of "cmd ''start''" init_state "replicate 15 (False, env_at 0)" "env_at 0"]
        quiet_ticks_progress_and_status
          [of "cmd ''start''" init_state "replicate 29 (False, env_at 0)" "env_at 0"]
        quiet_ticks_progress_and_status
          [of "cmd ''start''" init_state "replicate 30 (False, env_at 0)" "env_at 0"]
  by (simp add: fresh_state_def cmd_def init_state_def)

subsection \<open>Commands the current state does not allow\<close>

text \<open>
  C5. In every state: a start while cleaning, a stop while not cleaning, a pause that is
  not (cleaning and not paused), and a resume that is not (cleaning and paused) each
  return \<open>success = False\<close> with a message, leave the state as it was, insert and
  broadcast nothing, and return rather than raise; and a stop, pause or resume in a
  state that is not cleaning leaves it not cleaning.
\<close>

theorem invalid_commands_refused:
  "(command c = ''start'' \<and> is_cleaning s \<longrightarrow>
      send_robot_command c e s = \<lparr>state_after = s, inserted = [], broadcasts = [],
        outcome = Inr (Some \<lparr>success = False, resp_message = ''Robot is already cleaning'',
                             resp_state = None\<rparr>)\<rparr>)
   \<and> (command c = ''stop'' \<and> \<not> is_cleaning s \<longrightarrow>
      send_robot_command c e s = \<lparr>state_after = s, inserted = [], broadcasts = [],
        outcome = Inr (Some \<lparr>success = False, resp_message = ''Robot is not cleaning'',
                             resp_state = None\<rparr>)\<rparr>)
   \<and> (command c = ''pause'' \<and> \<not> (is_cleaning s \<and> status s \<noteq> Paused) \<longrightarrow>
      send_robot_command c e s = \<lparr>state_after = s, inserted = [], broadcasts = [],
        outcome = Inr (Some \<lparr>success = False, resp_message = ''Cannot pause robot'',
                             resp_state = None\<rparr>)\<rparr>)
   \<and> (command c = ''resume'' \<and> \<not> (is_cleaning s \<and> status s = Paused) \<longrightarrow>
      send_robot_command c e s = \<lparr>state_after = s, inserted = [], broadcasts = [],
        outcome = Inr (Some \<lparr>success = False, resp_message = ''Cannot resume robot'',
                             resp_state = None\<rparr>)\<rparr>)
   \<and> ((command c = ''stop'' \<or> command c = ''pause'' \<or> command c = ''resume'')
        \<and> \<not> is_cleaning s \<longrightarrow>
      \<not> is_cleaning (state_after (send_robot_command c e s)))"
  by (auto simp: send_robot_command_def refuse_def reply_def)

theorem invalid_commands_refused_witness:
  "is_cleaning fresh_state \<and> \<not> is_cleaning init_state \<and> status fresh_state \<noteq> Paused
   \<and> state_after (send_robot_command (cmd ''start'') (env_at 7) fresh_state) = fresh_state
   \<and> outcome (send_robot_command (cmd ''start'') (env_at 7) fresh_state)
       = Inr (Some \<lparr>success = False, resp_message = ''Robot is already cleaning'',
                     resp_state = None\<rparr>)
   \<and> state_after (send_robot_command (cmd ''stop'') (env_at 7) init_state) = init_state
   \<and> outcome (send_robot_command (cmd ''stop'') (env_at 7) init_state)
       = Inr (Some \<lparr>success = False, resp_message = ''Robot is not cleaning'',
                     resp_state = None\<rparr>)
   \<and> state_after (send_robot_command (cmd ''pause'') (env_at 7) init_state) = init_state
   \<and> outcome (send_robot_command (cmd ''pause'') (env_at 7) init_state)
       = Inr (Some \<lparr>success = False, resp_message = ''Cannot pause robot'',
                     resp_state = None\<rparr>)
   \<and> state_after (send_robot_command (cmd ''resume'') (env_at 7) fresh_state) = fresh_state
   \<and> outcome (send_robot_command (cmd ''resume'') (env_at 7) fresh_state)
       = Inr (Some \<lparr>success = False, resp_message = ''Cannot resume robot'',
                     resp_state = None\<rparr>)
   \<and> \<not> is_cleaning (state_after (send_robot_command (cmd ''resume'') (env_at 7) init_state))"
  using invalid_commands_refused [of "cmd ''start''" fresh_state "env_at 7"]
        invalid_commands_refused [of "cmd ''stop''" init_state "env_at 7"]
        invalid_commands_refused [of "cmd ''pause''" init_state "env_at 7"]
        invalid_commands_refused [of "cmd ''resume''" fresh_state "env_at 7"]
        invalid_commands_refused [of "cmd ''resume''" init_state "env_at 7"]
  by (simp add: cmd_def fresh_state_eq init_state_def)

subsection \<open>Resume\<close>

text \<open>
  C6, as stated, fails: the resume branch never assigns \<open>obstacle_detected\<close>. While the
  simulation task sleeps inside an obstacle pause the state is the one its alert message
  carries (paused, reason "obstacle_detected", \<open>obstacle_detected\<close> True); a resume
  arriving then is accepted and \<open>obstacle_detected\<close> is still True afterwards.
\<close>

theorem resume_keeps_obstacle_detected:
  "map msg_state (broadcasts (tick True (env_at 5000000) fresh_state))
     = [obstacle_state, obstacle_clear obstacle_state, obstacle_clear obstacle_state]
   \<and> is_cleaning obstacle_state \<and> status obstacle_state = Paused
   \<and> pause_reason obstacle_state = Some ObstacleDetected \<and> obstacle_detected obstacle_state
   \<and> outcome (send_robot_command (cmd ''resume'') (env_at 6000000) obstacle_state)
       = Inr (Some \<lparr>success = True, resp_message = ''Cleaning resumed'',
           resp_state = Some (obstacle_state\<lparr>status := Mopping, pause_reason := None\<rparr>)\<rparr>)
   \<and> obstacle_detected
        (state_after (send_robot_command (cmd ''resume'') (env_at 6000000) obstacle_state))"
  by (simp add: obstacle_state_eq fresh_state_eq cmd_def tick_defs handler_defs)

text \<open>
  C6, amended. A resume with \<open>is_cleaning\<close> true and status "paused" sets the status to
  "mopping" whatever the phase before the pause, sets \<open>pause_reason\<close> to None, leaves
  every other field, \<open>obstacle_detected\<close> included, as it was, broadcasts one info
  message and returns \<open>success = True\<close>.
\<close>

theorem resume_effect:
  assumes "command c = ''resume''" "is_cleaning s" "status s = Paused"
  shows "send_robot_command c e s =
     \<lparr>state_after = s\<lparr>status := Mopping, pause_reason := None\<rparr>, inserted = [],
      broadcasts = [\<lparr>mtype = Info, mtext = Some ''Cleaning resumed'',
         msg_state = s\<lparr>status := Mopping, pause_reason := None\<rparr>, msg_duration = None\<rparr>],
      outcome = Inr (Some \<lparr>success = True, resp_message = ''Cleaning resumed'',
         resp_state = Some (s\<lparr>status := Mopping, pause_reason := None\<rparr>)\<rparr>)\<rparr>
     \<and> status (state_after (send_robot_command c e s)) = Mopping
     \<and> pause_reason (state_after (send_robot_command c e s)) = None
     \<and> obstacle_detected (state_after (send_robot_command c e s)) = obstacle_detected s"
  using assms by (simp add: send_robot_command_def accept_def reply_def info_msg_def)

theorem resume_effect_witness:
  "command (cmd ''resume'') = ''resume'' \<and> is_cleaning paused_state
   \<and> status paused_state = Paused
   \<and> status (state_after (send_robot_command (cmd ''resume'') (env_at 9) paused_state))
       = Mopping
   \<and> pause_reason (state_after (send_robot_command (cmd ''resume'') (env_at 9) paused_state))
       = None
   \<and> \<not> obstacle_detected
         (state_after (send_robot_command (cmd ''resume'') (env_at 9) paused_state))"
  using resume_effect [of "cmd ''resume''" paused_state "env_at 9"]
  by (simp add: cmd_def paused_state_eq)

subsection \<open>Stop\<close>

text \<open>
  C7, as stated, fails: \<open>is_cleaning\<close> alone does not make a stop write a log
  document. A start request whose mode is null sets \<open>is_cleaning\<close> and then raises
  while formatting its message; a stop in the state it leaves is rejected by the
  \<open>CleaningLog\<close> constructor, which requires a mode: nothing is inserted, and the start
  time stays set. A stop while the database is down inserts nothing either and leaves
  progress and start time as they were.
\<close>

theorem stop_can_log_nothing:
  "outcome (send_robot_command \<lparr>command = ''start'', mode = None\<rparr> (env_at 0) init_state)
     = Inl AttributeError
   \<and> is_cleaning null_mode_state
   \<and> send_robot_command (cmd ''stop'') (env_at 9000000) null_mode_state
       = \<lparr>state_after = null_mode_state\<lparr>is_cleaning := False, status := Idle\<rparr>,
          inserted = [], broadcasts = [], outcome = Inl ValidationError\<rparr>
   \<and> start_time (state_after (send_robot_command (cmd ''stop'') (env_at 9000000) null_mode_state))
       = Some 0
   \<and> is_cleaning halfway_state
   \<and> inserted (send_robot_command (cmd ''stop'') (env_db_down 107500000) halfway_state) = []
   \<and> progress (state_after
        (send_robot_command (cmd ''stop'') (env_db_down 107500000) halfway_state)) = 42
   \<and> start_time (state_after
        (send_robot_command (cmd ''stop'') (env_db_down 107500000) halfway_state)) = Some 0"
  by (simp add: null_mode_state_eq halfway_state_eq cmd_def env_at_def env_db_down_def
      init_state_def send_robot_command_def start_state_def stop_session_def raised_def Let_def)

text \<open>
  C7, amended. A stop with \<open>is_cleaning\<close> true, the start time and mode of the session
  set and the database accepting the insert, inserts exactly one log document, with
  status "interrupted", as duration the time from the start to now in whole seconds,
  truncated towards zero (for times below \<open>2^34\<close> seconds), and the progress the state
  had when the stop arrived; the state afterwards has \<open>is_cleaning\<close> False, status
  "idle", progress 0 and neither start time nor mode; one info message carrying that
  state is broadcast and the response has \<open>success = True\<close>.
\<close>

theorem stop_effect:
  assumes "command c = ''stop''" "is_cleaning s"
    and "start_time s = Some st" "current_mode s = Some m" "db_ok e"
    and "\<bar>now e - st\<bar> < 17179869184000000"
  shows "inserted (send_robot_command c e s)
           = [\<lparr>log_id = new_id e, log_start_time = st, log_end_time = Some (now e),
               log_duration = Some (sgn (now e - st) * (\<bar>now e - st\<bar> div 1000000)),
               log_mode = m, log_status = ''interrupted'', log_progress = progress s\<rparr>]
     \<and> is_cleaning (state_after (send_robot_command c e s)) = False
     \<and> status (state_after (send_robot_command c e s)) = Idle
     \<and> progress (state_after (send_robot_command c e s)) = 0
     \<and> start_time (state_after (send_robot_command c e s)) = None
     \<and> current_mode (state_after (send_robot_command c e s)) = None
     \<and> broadcasts (send_robot_command c e s)
           = [\<lparr>mtype = Info, mtext = Some ''Cleaning stopped by user'',
               msg_state = state_after (send_robot_command c e s), msg_duration = None\<rparr>]
     \<and> outcome (send_robot_command c e s)
           = Inr (Some \<lparr>success = True, resp_message = ''Cleaning stopped'',
                resp_state = Some (state_after (send_robot_command c e s))\<rparr>)"
proof -
  have d: "duration_seconds (now e) st = sgn (now e - st) * (\<bar>now e - st\<bar> div 1000000)"
    using assms(6) by (rule duration_seconds_exact)
  have r: "send_robot_command c e s =
     \<lparr>state_after = s\<lparr>is_cleaning := False, status := Idle, progress := 0,
                      start_time := None, current_mode := None\<rparr>,
      inserted = [\<lparr>log_id = new_id e, log_start_time = st, log_end_time = Some (now e),
         log_duration = Some (duration_seconds (now e) st), log_mode = m,
         log_status = ''interrupted'', log_progress = progress s\<rparr>],
      broadcasts = [info_msg ''Cleaning stopped by user''
         (s\<lparr>is_cleaning := False, status := Idle, progress := 0,
            start_time := None, current_mode := None\<rparr>)],
      outcome = Inr (Some \<lparr>success = True, resp_message = ''Cleaning stopped'',
         resp_state = Some (s\<lparr>is_cleaning := False, status := Idle, progress := 0,
                               start_time := None, current_mode := None\<rparr>)\<rparr>)\<rparr>"
    using assms(1-5)
    by (simp add: send_robot_command_def stop_session_def accept_def reply_def Let_def)
  show ?thesis
    by (simp add: r d info_msg_def)
qed

theorem stop_effect_witness:
  "command (cmd ''stop'') = ''stop'' \<and> is_cleaning late_halfway_state
   \<and> start_time late_halfway_state = Some 3500000
   \<and> current_mode late_halfway_state = Some ''full_clean''
   \<and> db_ok (env_at 111250000)
   \<and> \<bar>now (env_at 111250000) - 3500000\<bar> < 17179869184000000
   \<and> inserted (send_robot_command (cmd ''stop'') (env_at 111250000) late_halfway_state)
       = [\<lparr>log_id = ''log'', log_start_time = 3500000, log_end_time = Some 111250000,
           log_duration = Some 107, log_mode = ''full_clean'',
           log_status = ''interrupted'', log_progress = 42\<rparr>]
   \<and> \<not> is_cleaning
         (state_after (send_robot_command (cmd ''stop'') (env_at 111250000) late_halfway_state))
   \<and> status (state_after (send_robot_command (cmd ''stop'') (env_at 111250000) late_halfway_state))
       = Idle
   \<and> progress (state_after (send_robot_command (cmd ''stop'') (env_at 111250000) late_halfway_state))
       = 0
   \<and> start_time
        (state_after (send_robot_command (cmd ''stop'') (env_at 111250000) late_halfway_state))
       = None
   \<and> current_mode
        (state_after (send_robot_command (cmd ''stop'') (env_at 111250000) late_halfway_state))
       = None"
  using stop_effect [of "cmd ''stop''" late_halfway_state 3500000 "''full_clean''"
        "env_at 111250000"]
  by (simp add: cmd_def late_halfway_state_eq env_at_def)

subsection \<open>A failing log insert\<close>

text \<open>
  C8, as stated, fails: neither insert is inside a \<open>try\<close>. When the insert of the
  completion branch raises, the exception leaves the \<open>while True\<close> loop and the
  simulation task ends: the next iteration is never run, and after a new start a tick
  no longer advances progress.
\<close>

theorem failed_insert_ends_simulation:
  "tick False (env_db_down 255000000) finished_state
     = \<lparr>state_after = finished_state\<lparr>is_cleaning := False, status := Idle\<rparr>,
        inserted = [], broadcasts = [], outcome = Inl StorageUnavailable\<rparr>
   \<and> snd (robot_simulation [(False, env_db_down 255000000), (False, env_at 260000000)]
          finished_state) = False
   \<and> sim_alive (step (Tick False (env_db_down 255000000)) finished_system) = False
   \<and> progress (robot (run [Tick False (env_db_down 255000000),
        Command (cmd ''start'') (env_at 300000000),
        Tick False (env_at 305000000)] finished_system)) = 0"
  by (simp add: finished_state_eq scenario_defs handler_defs tick_defs)

text \<open>
  C8, amended. When the log insert fails (with the start time and mode of the session
  set): in the completion branch the assignments made before it stand (\<open>is_cleaning\<close>
  False, status "idle", progress 100), nothing is inserted or broadcast, the exception
  leaves the simulation loop and the task ends, so no later iteration runs; in the stop
  branch \<open>is_cleaning\<close> False and status "idle" stand, the resets of progress, start
  time and mode and the broadcast that come after the insert do not happen, and the
  exception goes to the caller of the command.
\<close>

theorem failed_insert_effect:
  assumes "is_cleaning s" "start_time s = Some st" "current_mode s = Some m" "\<not> db_ok e"
  shows "(status s \<noteq> Paused \<and> 100 \<le> progress s \<longrightarrow>
            tick roll e s =
              \<lparr>state_after = s\<lparr>is_cleaning := False, status := Idle, progress := 100\<rparr>,
               inserted = [], broadcasts = [], outcome = Inl StorageUnavailable\<rparr>
          \<and> robot_simulation ((roll, e) # rest) s
              = (s\<lparr>is_cleaning := False, status := Idle, progress := 100\<rparr>, False))
     \<and> (command c = ''stop'' \<longrightarrow>
            send_robot_command c e s =
              \<lparr>state_after = s\<lparr>is_cleaning := False, status := Idle\<rparr>,
               inserted = [], broadcasts = [], outcome = Inl StorageUnavailable\<rparr>)"
  using assms
  by (simp add: tick_def complete_session_def mark_complete_def raised_def
      send_robot_command_def stop_session_def Let_def)

theorem failed_insert_effect_witness:
  "is_cleaning finished_state \<and> start_time finished_state = Some 0
   \<and> current_mode finished_state = Some ''full_clean'' \<and> \<not> db_ok (env_db_down 255000000)
   \<and> status finished_state \<noteq> Paused \<and> 100 \<le> progress finished_state
   \<and> command (cmd ''stop'') = ''stop''
   \<and> robot_simulation [(False, env_db_down 255000000), (False, env_at 260000000)]
        finished_state
       = (finished_state\<lparr>is_cleaning := False, status := Idle\<rparr>, False)
   \<and> state_after (send_robot_command (cmd ''stop'') (env_db_down 255000000) finished_state)
       = finished_state\<lparr>is_cleaning := False, status := Idle\<rparr>
   \<and> outcome (send_robot_command (cmd ''stop'') (env_db_down 255000000) finished_state)
       = Inl StorageUnavailable"
  using failed_insert_effect [of finished_state 0 "''full_clean''" "env_db_down 255000000"
        False "[(False, env_at 260000000)]" "cmd ''stop''"]
  by (simp add: finished_state_eq cmd_def env_db_down_def)

subsection \<open>Broadcast\<close>

text \<open>
  C9. For every list of connections and every outcome of the individual sends,
  \<open>broadcast\<close> sends to every connection of the list, the connections whose send
  succeeds all receive the message, the connections left in the list afterwards are
  exactly those (so exactly the failing ones are removed), and the call raises nothing.
\<close>

theorem broadcast_evicts_exactly_the_failed:
  "broadcast delivers active =
     \<lparr>attempted = active, received = filter delivers active,
      remaining = filter delivers active, failure = None\<rparr>"
  using drop_loop_filter[of "[]" delivers active] by (simp add: broadcast_def send_loop_eq)

subsection \<open>Unknown commands\<close>

text \<open>
  C10. A command whose string is none of "start", "stop", "pause", "resume" leaves the
  state unchanged, inserts and broadcasts nothing, and makes the handler return None
  instead of a response dictionary.
\<close>

theorem unknown_command_returns_none:
  assumes "command c \<noteq> ''start''" "command c \<noteq> ''stop''"
    and "command c \<noteq> ''pause''" "command c \<noteq> ''resume''"
  shows "send_robot_command c e s =
     \<lparr>state_after = s, inserted = [], broadcasts = [], outcome = Inr None\<rparr>"
  using assms by (simp add: send_robot_command_def)

theorem unknown_command_returns_none_witness:
  "command (cmd ''invalid_command'') \<noteq> ''start'' \<and> command (cmd ''invalid_command'') \<noteq> ''stop''
   \<and> command (cmd ''invalid_command'') \<noteq> ''pause''
   \<and> command (cmd ''invalid_command'') \<noteq> ''resume''
   \<and> send_robot_command (cmd ''invalid_command'') (env_at 3) fresh_state
       = \<lparr>state_after = fresh_state, inserted = [], broadcasts = [], outcome = Inr None\<rparr>"
  using unknown_command_returns_none [of "cmd ''invalid_command''" "env_at 3" fresh_state]
  by (simp add: cmd_def)

end
